theory Spec2Isabelle
  imports Complex_Main
begin

section \<open>Values shared by the services\<close>

text \<open>
  Every service is an Express application over one SQLite database. A route handler is
  modelled as a function from the request and the database to the response and the new
  database. The clock (\<open>CURRENT_TIMESTAMP\<close>), generated identifiers (\<open>uuidv4()\<close>) and the
  outcome of \<open>Math.random()\<close> comparisons are inputs of the handler. Database statements
  are taken to succeed unless a constraint of the schema rejects them, and each request runs
  to completion before the next one starts.
\<close>

type_synonym timestamp = nat

text \<open>
  What a handler sends when it does not succeed: \<open>{errors: errors.array()}\<close> with status
  400, \<open>{error: msg}\<close> with a status, or \<open>{success: false, message: msg}\<close> with a status.
\<close>

datatype failure = ValidationErrors | Error nat string | Unsuccessful nat string

fun http_status :: "failure \<Rightarrow> nat" where
  "http_status ValidationErrors = 400"
| "http_status (Error code msg) = code"
| "http_status (Unsuccessful code msg) = code"

text \<open>The row id SQLite gives to a row inserted in an \<open>AUTOINCREMENT\<close> table.\<close>

definition lastID :: "int list \<Rightarrow> int" where
  "lastID ids = fold max ids 0 + 1"


section \<open>JavaScript numbers\<close>

text \<open>
  A JavaScript number is an IEEE 754 double: \<open>NaN\<close>, an infinity, or a finite value
  \<open>m * 2 ^ e\<close>, written \<open>Finite m e\<close> with \<open>m\<close> odd, and \<open>Finite 0 0\<close> for zero (the two
  zeros of the format are not told apart). A finite double has a mantissa below \<open>2 ^ 53\<close>,
  a least exponent of \<open>- 1074\<close> and a value below \<open>2 ^ 1024\<close>.
\<close>

datatype number = NaN | PosInfinity | NegInfinity | Finite int int

text \<open>The number of binary digits of a natural number.\<close>

fun bitlen :: "nat \<Rightarrow> nat" where
  "bitlen n = (if n = 0 then 0 else Suc (bitlen (n div 2)))"

declare bitlen.simps [simp del]

text \<open>The number \<open>m * 2 ^ e\<close> with its mantissa made odd.\<close>

function normalize :: "int \<Rightarrow> int \<Rightarrow> number" where
  "normalize m e =
     (if m = 0 then Finite 0 0
      else if even m then normalize (m div 2) (e + 1)
      else Finite m e)"
  by pat_completeness auto
termination
  by (relation "measure (\<lambda>(m, e). nat \<bar>m\<bar>)") (auto elim!: evenE)

declare normalize.simps [simp del]

text \<open>
  Rounding to the nearest double, ties to the even mantissa. \<open>scale a q t\<close> is the fraction
  \<open>a / q\<close> times \<open>2 ^ t\<close>; \<open>round_half_even\<close> rounds a fraction to an integer;
  \<open>round_ratio negative a q\<close> is the double nearest to \<open>a / q\<close>, negated when \<open>negative\<close>:
  with \<open>E\<close> the exponent of the leading binary digit of \<open>a / q\<close>, the result is a multiple
  of \<open>2 ^ t\<close> for \<open>t = max (E - 52) (- 1074)\<close>, and an infinity when it reaches \<open>2 ^ 1024\<close>.
\<close>

definition scale :: "nat \<Rightarrow> nat \<Rightarrow> int \<Rightarrow> nat \<times> nat" where
  "scale a q t = (if 0 \<le> t then (a * 2 ^ nat t, q) else (a, q * 2 ^ nat (- t)))"

definition round_half_even :: "nat \<times> nat \<Rightarrow> nat" where
  "round_half_even x =
     (case x of (a, q) \<Rightarrow>
        let n = a div q; r = a mod q
        in if q < 2 * r \<or> (2 * r = q \<and> odd n) then n + 1 else n)"

definition round_ratio :: "bool \<Rightarrow> nat \<Rightarrow> nat \<Rightarrow> number" where
  "round_ratio negative a q =
     (if a = 0 then Finite 0 0
      else
        let d = int (bitlen a) - int (bitlen q);
            E = (case scale a q (- d) of (a', q') \<Rightarrow> if q' \<le> a' then d else d - 1);
            t = max (E - 52) (- 1074);
            M = round_half_even (scale a q (- t))
        in if 1024 < int (bitlen M) + t
           then (if negative then NegInfinity else PosInfinity)
           else normalize (if negative then - int M else int M) t)"

definition nearest :: "int \<Rightarrow> int \<Rightarrow> number" where
  "nearest m e = (case scale (nat \<bar>m\<bar>) 1 e of (a, q) \<Rightarrow> round_ratio (m < 0) a q)"

text \<open>
  The number a decimal literal denotes (\<open>299.99\<close> is \<open>decimal 29999 2\<close>), and the number
  an integer is read as.
\<close>

definition decimal :: "int \<Rightarrow> nat \<Rightarrow> number" where
  "decimal digits places = round_ratio (digits < 0) (nat \<bar>digits\<bar>) (10 ^ places)"

definition number_of_int :: "int \<Rightarrow> number" where
  "number_of_int k = nearest k 0"

text \<open>
  The operator \<open>*\<close>: the exact product of two finite numbers, which is
  \<open>(m * n) * 2 ^ (e + f)\<close>, rounded to the nearest double.
\<close>

fun multiply :: "number \<Rightarrow> number \<Rightarrow> number" where
  "multiply (Finite m e) (Finite n f) = nearest (m * n) (e + f)"
| "multiply NaN y = NaN"
| "multiply x NaN = NaN"
| "multiply (Finite m e) PosInfinity =
     (if m = 0 then NaN else if 0 < m then PosInfinity else NegInfinity)"
| "multiply (Finite m e) NegInfinity =
     (if m = 0 then NaN else if 0 < m then NegInfinity else PosInfinity)"
| "multiply PosInfinity (Finite n f) =
     (if n = 0 then NaN else if 0 < n then PosInfinity else NegInfinity)"
| "multiply NegInfinity (Finite n f) =
     (if n = 0 then NaN else if 0 < n then NegInfinity else PosInfinity)"
| "multiply PosInfinity PosInfinity = PosInfinity"
| "multiply PosInfinity NegInfinity = NegInfinity"
| "multiply NegInfinity PosInfinity = NegInfinity"
| "multiply NegInfinity NegInfinity = PosInfinity"

text \<open>The operator \<open><\<close> on numbers: false whenever an operand is \<open>NaN\<close>.\<close>

fun less_than :: "number \<Rightarrow> number \<Rightarrow> bool" where
  "less_than (Finite m e) (Finite n f) =
     (let g = min e f in m * 2 ^ nat (e - g) < n * 2 ^ nat (f - g))"
| "less_than NaN y = False"
| "less_than x NaN = False"
| "less_than x NegInfinity = False"
| "less_than PosInfinity y = False"
| "less_than (Finite m e) PosInfinity = True"
| "less_than NegInfinity (Finite n f) = True"
| "less_than NegInfinity PosInfinity = True"

text \<open>The integer a number is, when it is one.\<close>

definition integer_of :: "number \<Rightarrow> int option" where
  "integer_of x =
     (case x of
        Finite m e \<Rightarrow>
          if 0 \<le> e then Some (m * 2 ^ nat e)
          else if m mod 2 ^ nat (- e) = 0 then Some (m div 2 ^ nat (- e))
          else None
      | _ \<Rightarrow> None)"


section \<open>Request bodies\<close>

text \<open>
  A value of a JSON request body: a scalar, or an array of scalars. A number is the double
  that \<open>JSON.parse\<close> reads; an object is kept opaque. A field of a body is such a value, or
  is missing (\<open>None\<close>, which JavaScript reads as \<open>undefined\<close>).
\<close>

datatype scalar = JNull | JBool bool | JNumber number | JString string | JObject

datatype json = Single scalar | Array "scalar list"

text \<open>
  The integer a string denotes when it matches \<open>/^[-+]?[0-9]+$/\<close>, the pattern of
  \<open>isInt\<close>.
\<close>

definition is_digit :: "char \<Rightarrow> bool" where
  "is_digit c = (c \<in> set ''0123456789'')"

definition digit_value :: "char \<Rightarrow> nat" where
  "digit_value c = length (takeWhile (\<lambda>d. d \<noteq> c) ''0123456789'')"

definition digits_value :: "string \<Rightarrow> nat" where
  "digits_value cs = foldl (\<lambda>n c. 10 * n + digit_value c) 0 cs"

definition all_digits :: "string \<Rightarrow> bool" where
  "all_digits cs = (cs \<noteq> [] \<and> list_all is_digit cs)"

fun int_literal :: "string \<Rightarrow> int option" where
  "int_literal [] = None"
| "int_literal (c # cs) =
     (if c = CHR ''-'' then (if all_digits cs then Some (- int (digits_value cs)) else None)
      else if c = CHR ''+'' then (if all_digits cs then Some (int (digits_value cs)) else None)
      else if all_digits (c # cs) then Some (int (digits_value (c # cs)))
      else None)"

text \<open>
  The validators of \<open>express-validator\<close>. A standard validator is given the string form of
  the value; on an array it is given the string form of each element, so an empty array
  passes every standard validator. A missing field has the string form of \<open>null\<close>, the
  empty string. \<open>optional()\<close> skips the validators of a missing field.

  \<open>int_string\<close> is the integer that the string form of a scalar denotes under the pattern
  of \<open>isInt\<close>: a number has such a string form when it is an integer below \<open>10 ^ 21\<close> in
  absolute value. \<open>isInt({min, max})\<close> compares that integer with the bounds. The string
  form of a scalar that is not a string is none of the names that \<open>isIn\<close> is given below.
\<close>

fun int_string :: "scalar \<Rightarrow> int option" where
  "int_string (JNumber x) =
     (case integer_of x of
        None \<Rightarrow> None
      | Some k \<Rightarrow> if \<bar>k\<bar> < 10 ^ 21 then Some k else None)"
| "int_string (JString s) = int_literal s"
| "int_string JNull = None"
| "int_string (JBool b) = None"
| "int_string JObject = None"

definition isInt :: "int \<Rightarrow> int option \<Rightarrow> scalar \<Rightarrow> bool" where
  "isInt lo hi x =
     (case int_string x of
        None \<Rightarrow> False
      | Some k \<Rightarrow> lo \<le> k \<and> (case hi of None \<Rightarrow> True | Some h \<Rightarrow> k \<le> h))"

definition isIn :: "string list \<Rightarrow> scalar \<Rightarrow> bool" where
  "isIn allowed x = (case x of JString s \<Rightarrow> s \<in> set allowed | _ \<Rightarrow> False)"

definition standard :: "(scalar \<Rightarrow> bool) \<Rightarrow> json option \<Rightarrow> bool" where
  "standard validator field =
     (case field of
        None \<Rightarrow> validator JNull
      | Some (Single x) \<Rightarrow> validator x
      | Some (Array xs) \<Rightarrow> list_all validator xs)"

definition isObject :: "json option \<Rightarrow> bool" where
  "isObject field = (field = Some (Single JObject))"

definition optional :: "(json option \<Rightarrow> bool) \<Rightarrow> json option \<Rightarrow> bool" where
  "optional validator field = (field = None \<or> validator field)"

text \<open>
  The number JavaScript reads a value as in \<open><\<close> and \<open>*\<close>. An array is read through its
  string form, its elements joined by commas: the empty array as 0, an array of one element
  as that element, a longer array as \<open>NaN\<close>. Of strings, the empty string and the integer
  literals are read; every string that reaches an operator below has passed \<open>isInt\<close>.
\<close>

definition string_number :: "string \<Rightarrow> number" where
  "string_number s =
     (if s = [] then Finite 0 0
      else case int_literal s of Some k \<Rightarrow> number_of_int k | None \<Rightarrow> NaN)"

fun to_number :: "scalar \<Rightarrow> number" where
  "to_number JNull = Finite 0 0"
| "to_number (JBool b) = (if b then Finite 1 0 else Finite 0 0)"
| "to_number (JNumber x) = x"
| "to_number (JString s) = string_number s"
| "to_number JObject = NaN"

fun js_number :: "json \<Rightarrow> number" where
  "js_number (Single x) = to_number x"
| "js_number (Array []) = Finite 0 0"
| "js_number (Array [JNull]) = Finite 0 0"
| "js_number (Array [JBool b]) = NaN"
| "js_number (Array [JNumber x]) = x"
| "js_number (Array [JString s]) = string_number s"
| "js_number (Array [JObject]) = NaN"
| "js_number (Array (x # y # zs)) = NaN"

text \<open>
  What \<open>node-sqlite3\<close> binds to a parameter of a statement: a number for a number (\<open>NULL\<close>
  for \<open>NaN\<close>) and for a boolean, the text of a string, \<open>NULL\<close> for \<open>null\<close> and for a
  missing value, and the text \<open>[object Object]\<close> for an object and for an array. A stored
  cell is recorded as the parameter that was bound to it.
\<close>

datatype cell = SqlNull | SqlNumber number | SqlText string

definition bind_number :: "number \<Rightarrow> cell" where
  "bind_number x = (if x = NaN then SqlNull else SqlNumber x)"

fun bind :: "json option \<Rightarrow> cell" where
  "bind None = SqlNull"
| "bind (Some (Single JNull)) = SqlNull"
| "bind (Some (Single (JBool b))) = SqlNumber (if b then Finite 1 0 else Finite 0 0)"
| "bind (Some (Single (JNumber x))) = bind_number x"
| "bind (Some (Single (JString s))) = SqlText s"
| "bind (Some (Single JObject)) = SqlText ''[object Object]''"
| "bind (Some (Array xs)) = SqlText ''[object Object]''"

text \<open>
  The integer SQLite reads a parameter as where it compares it with an \<open>INTEGER\<close> column,
  and the operand it reads it as in integer arithmetic, where text that is no number counts
  as 0. Every number and every string that reaches a statement below has passed \<open>isInt\<close>.
\<close>

fun sqlite_integer :: "cell \<Rightarrow> int option" where
  "sqlite_integer (SqlNumber x) = integer_of x"
| "sqlite_integer (SqlText s) = int_literal s"
| "sqlite_integer SqlNull = None"

definition sqlite_operand :: "cell \<Rightarrow> int" where
  "sqlite_operand c = (case sqlite_integer c of Some k \<Rightarrow> k | None \<Rightarrow> 0)"


section \<open>Booking service\<close>

text \<open>
  The tables \<open>services\<close> and \<open>bookings\<close>. A price is the number JavaScript reads from the
  column, \<open>available_slots\<close> an integer.
\<close>

record service =
  svc_id :: int
  svc_name :: string
  svc_type :: string
  svc_description :: string
  price :: number
  available_slots :: int
  svc_location :: string
  svc_image_url :: string
  svc_created_at :: timestamp

record booking =
  bk_id :: int
  bk_user_id :: cell
  bk_service_id :: cell
  bk_booking_date :: cell
  bk_guests :: cell
  bk_total_amount :: cell
  bk_status :: string
  bk_payment_status :: string
  bk_created_at :: timestamp
  bk_updated_at :: timestamp

record booking_db =
  services :: "service list"
  bookings :: "booking list"

record booking_request =
  rq_userId :: "json option"
  rq_serviceId :: "json option"
  rq_bookingDate :: "json option"
  rq_guests :: "json option"

record booking_created =
  bookingId :: int
  totalAmount :: number

text \<open>
  The validation chain of \<open>POST /bookings\<close>. \<open>isISO8601\<close> is the validator of the
  library on one element, a parameter here.
\<close>

definition booking_request_valid :: "(scalar \<Rightarrow> bool) \<Rightarrow> booking_request \<Rightarrow> bool" where
  "booking_request_valid isISO8601 req =
     (standard (isInt 1 None) (rq_userId req) \<and>
      standard (isInt 1 None) (rq_serviceId req) \<and>
      standard isISO8601 (rq_bookingDate req) \<and>
      optional (standard (isInt 1 (Some 10))) (rq_guests req))"

text \<open>The destructuring default \<open>guests = 1\<close>, which applies to a missing field.\<close>

fun guests_or_default :: "json option \<Rightarrow> json" where
  "guests_or_default None = Single (JNumber (Finite 1 0))"
| "guests_or_default (Some g) = g"

text \<open>\<open>UPDATE services SET available_slots = available_slots - ? WHERE id = ?\<close>\<close>

definition decrement_slots :: "cell \<Rightarrow> cell \<Rightarrow> service list \<Rightarrow> service list" where
  "decrement_slots guests serviceId rows =
     map (\<lambda>v. if sqlite_integer serviceId = Some (svc_id v)
               then v\<lparr>available_slots := available_slots v - sqlite_operand guests\<rparr>
               else v) rows"

text \<open>
  \<open>POST /bookings\<close>. The insert fails when a column declared \<open>NOT NULL\<close> would hold
  \<open>NULL\<close>.
\<close>

definition createBooking ::
  "(scalar \<Rightarrow> bool) \<Rightarrow> timestamp \<Rightarrow> booking_request \<Rightarrow> booking_db
     \<Rightarrow> (failure + booking_created) \<times> booking_db" where
  "createBooking isISO8601 now req s =
     (if \<not> booking_request_valid isISO8601 req then (Inl ValidationErrors, s)
      else
        let guests = guests_or_default (rq_guests req);
            serviceId = bind (rq_serviceId req)
        in case find (\<lambda>v. sqlite_integer serviceId = Some (svc_id v)) (services s) of
             None \<Rightarrow> (Inl (Error 404 ''Service not found''), s)
           | Some service \<Rightarrow>
               if less_than (number_of_int (available_slots service)) (js_number guests)
               then (Inl (Error 400 ''Not enough available slots''), s)
               else
                 let total = multiply (price service) (js_number guests);
                     new_id = lastID (map bk_id (bookings s));
                     row = \<lparr>bk_id = new_id, bk_user_id = bind (rq_userId req),
                            bk_service_id = serviceId,
                            bk_booking_date = bind (rq_bookingDate req),
                            bk_guests = bind (Some guests),
                            bk_total_amount = bind_number total, bk_status = ''pending'',
                            bk_payment_status = ''pending'', bk_created_at = now,
                            bk_updated_at = now\<rparr>
                 in if SqlNull \<in> set [bk_user_id row, bk_service_id row, bk_booking_date row,
                                      bk_total_amount row]
                    then (Inl (Error 500 ''Failed to create booking''), s)
                    else (Inr \<lparr>bookingId = new_id, totalAmount = total\<rparr>,
                          s\<lparr>bookings := bookings s @ [row],
                            services := decrement_slots (bk_guests row) serviceId (services s)\<rparr>))"

text \<open>A sequence of requests, each served to completion before the next.\<close>

fun createBookings ::
  "(scalar \<Rightarrow> bool) \<Rightarrow> (timestamp \<times> booking_request) list \<Rightarrow> booking_db \<Rightarrow> booking_db" where
  "createBookings isISO8601 [] s = s"
| "createBookings isISO8601 ((now, req) # rest) s =
     createBookings isISO8601 rest (snd (createBooking isISO8601 now req s))"

definition capacity_nonneg :: "booking_db \<Rightarrow> bool" where
  "capacity_nonneg s = list_all (\<lambda>v. 0 \<le> available_slots v) (services s)"

text \<open>
  The rows the service inserts into an empty \<open>services\<close> table when it starts
  (\<open>sampleServices\<close>); \<open>available_slots\<close> takes the column's default, 100.
\<close>

definition sampleServices :: "timestamp \<Rightarrow> service list" where
  "sampleServices now =
     [\<lparr>svc_id = 1, svc_name = ''Luxury Beach Resort'', svc_type = ''hotel'',
       svc_description = ''Beautiful beachfront resort with stunning ocean views'',
       price = decimal 29999 2, available_slots = 100, svc_location = ''Maldives'',
       svc_image_url = ''https://images.pexels.com/photos/189296/pexels-photo-189296.jpeg'',
       svc_created_at = now\<rparr>,
      \<lparr>svc_id = 2, svc_name = ''Mountain Cabin Retreat'', svc_type = ''hotel'',
       svc_description = ''Cozy cabin in the mountains perfect for relaxation'',
       price = decimal 14999 2, available_slots = 100, svc_location = ''Colorado'',
       svc_image_url = ''https://images.pexels.com/photos/338504/pexels-photo-338504.jpeg'',
       svc_created_at = now\<rparr>,
      \<lparr>svc_id = 3, svc_name = ''Flight to Paris'', svc_type = ''flight'',
       svc_description = ''Direct flight to the city of lights'',
       price = decimal 59999 2, available_slots = 100, svc_location = ''Paris, France'',
       svc_image_url = ''https://images.pexels.com/photos/358319/pexels-photo-358319.jpeg'',
       svc_created_at = now\<rparr>,
      \<lparr>svc_id = 4, svc_name = ''Tech Conference 2024'', svc_type = ''event'',
       svc_description = ''Annual technology conference with industry leaders'',
       price = decimal 19999 2, available_slots = 100, svc_location = ''San Francisco'',
       svc_image_url = ''https://images.pexels.com/photos/1181396/pexels-photo-1181396.jpeg'',
       svc_created_at = now\<rparr>,
      \<lparr>svc_id = 5, svc_name = ''Music Festival Weekend'', svc_type = ''event'',
       svc_description = ''Three-day music festival featuring top artists'',
       price = decimal 24999 2, available_slots = 100, svc_location = ''Austin, Texas'',
       svc_image_url = ''https://images.pexels.com/photos/1105666/pexels-photo-1105666.jpeg'',
       svc_created_at = now\<rparr>,
      \<lparr>svc_id = 6, svc_name = ''Tokyo Adventure'', svc_type = ''flight'',
       svc_description = ''Experience the vibrant culture of Tokyo'',
       price = decimal 89999 2, available_slots = 100, svc_location = ''Tokyo, Japan'',
       svc_image_url = ''https://images.pexels.com/photos/2506923/pexels-photo-2506923.jpeg'',
       svc_created_at = now\<rparr>]"

definition seeded :: "booking_db" where
  "seeded = \<lparr>services = sampleServices 0, bookings = []\<rparr>"

text \<open>
  For concrete runs: a stand-in for \<open>isISO8601\<close> that accepts the one date used, a
  request of user 7 for item 1 on that date, and a database whose only item has three
  places left.
\<close>

definition july_first :: "scalar \<Rightarrow> bool" where
  "july_first d = (d = JString ''2024-07-01'')"

definition party_of :: "json option \<Rightarrow> booking_request" where
  "party_of g = \<lparr>rq_userId = Some (Single (JNumber (Finite 7 0))),
                 rq_serviceId = Some (Single (JNumber (Finite 1 0))),
                 rq_bookingDate = Some (Single (JString ''2024-07-01'')), rq_guests = g\<rparr>"

definition three_left :: "booking_db" where
  "three_left =
     \<lparr>services = [\<lparr>svc_id = 1, svc_name = ''Luxury Beach Resort'', svc_type = ''hotel'',
                    svc_description = ''Beautiful beachfront resort with stunning ocean views'',
                    price = decimal 29999 2, available_slots = 3, svc_location = ''Maldives'',
                    svc_image_url = [], svc_created_at = 0\<rparr>],
      bookings = []\<rparr>"

section \<open>Notification service\<close>

record notification =
  nt_id :: int
  nt_user_id :: int
  nt_type :: string
  nt_subject :: string
  nt_message :: string
  nt_booking_id :: "int option"
  nt_payment_id :: "string option"
  nt_status :: string
  sent_at :: timestamp
  read_at :: "timestamp option"

text \<open>
  \<open>PUT /notifications/:id/read\<close>:
  \<open>UPDATE notifications SET read_at = CURRENT_TIMESTAMP WHERE id = ?\<close>, then 404 when
  \<open>this.changes\<close> is 0.
\<close>

definition markRead ::
  "timestamp \<Rightarrow> int \<Rightarrow> notification list \<Rightarrow> (failure + string) \<times> notification list" where
  "markRead now ident rows =
     (let changes = length (filter (\<lambda>n. nt_id n = ident) rows);
          rows' = map (\<lambda>n. if nt_id n = ident then n\<lparr>read_at := Some now\<rparr> else n) rows
      in if changes = 0 then (Inl (Error 404 ''Notification not found''), rows')
         else (Inr ''Notification marked as read'', rows'))"

text \<open>For concrete runs: two stored notifications of user 7, neither read.\<close>

definition inbox :: "notification list" where
  "inbox =
     [\<lparr>nt_id = 1, nt_user_id = 7, nt_type = ''booking_created'',
       nt_subject = ''Booking Confirmation'',
       nt_message = ''Your booking for Luxury Beach Resort has been created successfully.'',
       nt_booking_id = Some 1, nt_payment_id = None, nt_status = ''sent'', sent_at = 5,
       read_at = None\<rparr>,
      \<lparr>nt_id = 2, nt_user_id = 7, nt_type = ''payment_success'',
       nt_subject = ''Payment Successful'',
       nt_message = ''Payment of $599.98 processed successfully via Stripe.'',
       nt_booking_id = Some 1, nt_payment_id = Some ''pay-1'', nt_status = ''sent'',
       sent_at = 8, read_at = None\<rparr>]"


section \<open>Payment service\<close>

text \<open>
  The column \<open>gateway_response\<close> holds \<open>JSON.stringify\<close> of the gateway's result, of
  the refund details, or of a gateway error.
\<close>

record gateway_result =
  success :: bool
  transactionId :: "string option"
  message :: string

datatype gateway_response =
    Processed gateway_result
  | Refunded string string timestamp
  | GatewayError

record 'p payment =
  pay_id :: int
  payment_id :: string
  pay_booking_id :: cell
  pay_user_id :: cell
  amount :: 'p
  currency :: string
  payment_method :: cell
  pay_status :: string
  gateway_response :: "gateway_response option"
  transaction_id :: "string option"
  pay_created_at :: timestamp
  pay_updated_at :: timestamp

record payment_request =
  pr_bookingId :: "json option"
  pr_userId :: "json option"
  pr_amount :: "json option"
  pr_paymentMethod :: "json option"
  pr_cardDetails :: "json option"

record payment_completed =
  pc_paymentId :: string
  pc_transactionId :: "string option"
  pc_message :: string
  pc_amount :: "json option"

record 'p refund_processed =
  refundId :: string
  rf_message :: string
  rf_amount :: 'p

text \<open>
  \<open>paymentGateways\<close>: the entry of a method, run with the outcome of its
  \<open>Math.random()\<close> comparison and a fresh uuid. A method with no entry has no gateway.
\<close>

definition paymentGateways :: "string \<Rightarrow> (bool \<Rightarrow> string \<Rightarrow> gateway_result) option" where
  "paymentGateways m =
     (if m = ''stripe'' then Some (\<lambda>ok uuid.
        \<lparr>success = ok, transactionId = (if ok then Some (''stripe_'' @ uuid) else None),
         message = (if ok then ''Payment processed successfully''
                    else ''Payment failed - insufficient funds'')\<rparr>)
      else if m = ''paypal'' then Some (\<lambda>ok uuid.
        \<lparr>success = ok, transactionId = (if ok then Some (''pp_'' @ uuid) else None),
         message = (if ok then ''PayPal payment successful'' else ''PayPal payment declined'')\<rparr>)
      else if m = ''square'' then Some (\<lambda>ok uuid.
        \<lparr>success = ok, transactionId = (if ok then Some (''sq_'' @ uuid) else None),
         message = (if ok then ''Square payment completed'' else ''Square payment error'')\<rparr>)
      else None)"

text \<open>
  \<open>paymentGateways[paymentMethod]\<close>: the property is looked up under the string form of
  the value, which for an array is its elements joined by commas. A string names its own
  entry, an array of one string the entry of that string; the string form of any other
  value (the empty string for the empty array) is the name of no gateway.
\<close>

fun gateway_of :: "json option \<Rightarrow> (bool \<Rightarrow> string \<Rightarrow> gateway_result) option" where
  "gateway_of (Some (Single (JString m))) = paymentGateways m"
| "gateway_of (Some (Array [JString m])) = paymentGateways m"
| "gateway_of other = None"

text \<open>
  The validation chain of \<open>POST /process\<close>. \<open>isFloat\<close> is the validator
  \<open>isFloat({min: 0.01})\<close> of the library on one element, a parameter here.
\<close>

definition payment_request_valid :: "(scalar \<Rightarrow> bool) \<Rightarrow> payment_request \<Rightarrow> bool" where
  "payment_request_valid isFloat req =
     (standard (isInt 1 None) (pr_bookingId req) \<and>
      standard (isInt 1 None) (pr_userId req) \<and>
      standard isFloat (pr_amount req) \<and>
      standard (isIn [''stripe'', ''paypal'', ''square'']) (pr_paymentMethod req) \<and>
      optional isObject (pr_cardDetails req))"

text \<open>The \<open>UPDATE payments ... WHERE id = ?\<close> statements of \<open>POST /process\<close>.\<close>

definition update_payment ::
  "int \<Rightarrow> ('p payment \<Rightarrow> 'p payment) \<Rightarrow> 'p payment list \<Rightarrow> 'p payment list" where
  "update_payment rowid f rows = map (\<lambda>p. if pay_id p = rowid then f p else p) rows"

text \<open>
  \<open>POST /process\<close>. \<open>paymentId\<close> and \<open>uuid\<close> are the generated identifiers, \<open>ok\<close> the
  outcome of the gateway's draw, \<open>now\<close> the time of the insert and \<open>later\<close> the time of
  the update that follows the gateway's delay. The insert fails when \<open>payment_id\<close> is
  not unique or a column declared \<open>NOT NULL\<close> would hold \<open>NULL\<close>. When
  \<open>paymentGateways[paymentMethod]\<close> is undefined, calling its \<open>process\<close> throws, and the
  handler's \<open>catch\<close> marks the inserted payment as failed and answers 500.
\<close>

definition processPayment ::
  "(scalar \<Rightarrow> bool) \<Rightarrow> string \<Rightarrow> timestamp \<Rightarrow> bool \<Rightarrow> string \<Rightarrow> timestamp \<Rightarrow> payment_request
     \<Rightarrow> cell payment list \<Rightarrow> (failure + payment_completed) \<times> cell payment list" where
  "processPayment isFloat paymentId now ok uuid later req rows =
     (if \<not> payment_request_valid isFloat req then (Inl ValidationErrors, rows)
      else
        let paymentRecordId = lastID (map pay_id rows);
            row = \<lparr>pay_id = paymentRecordId, payment_id = paymentId,
                   pay_booking_id = bind (pr_bookingId req), pay_user_id = bind (pr_userId req),
                   amount = bind (pr_amount req), currency = ''USD'',
                   payment_method = bind (pr_paymentMethod req), pay_status = ''pending'',
                   gateway_response = None, transaction_id = None, pay_created_at = now,
                   pay_updated_at = now\<rparr>
        in if list_ex (\<lambda>p. payment_id p = paymentId) rows \<or>
              SqlNull \<in> set [pay_booking_id row, pay_user_id row, amount row, payment_method row]
           then (Inl (Error 500 ''Failed to create payment record''), rows)
           else
             case gateway_of (pr_paymentMethod req) of
               None \<Rightarrow>
                 (Inl (Unsuccessful 500 ''Payment gateway error''),
                  update_payment paymentRecordId
                    (\<lambda>p. p\<lparr>pay_status := ''failed'', gateway_response := Some GatewayError,
                           pay_updated_at := now\<rparr>) (rows @ [row]))
             | Some process \<Rightarrow>
                 let result = process ok uuid;
                     status = (if success result then ''completed'' else ''failed'');
                     updated = update_payment paymentRecordId
                       (\<lambda>p. p\<lparr>pay_status := status,
                              gateway_response := Some (Processed result),
                              transaction_id := transactionId result,
                              pay_updated_at := later\<rparr>) (rows @ [row])
                 in if success result
                    then (Inr \<lparr>pc_paymentId = paymentId,
                               pc_transactionId = transactionId result,
                               pc_message = message result, pc_amount = pr_amount req\<rparr>,
                          updated)
                    else (Inl (Unsuccessful 400 (message result)), updated))"

text \<open>
  \<open>POST /refund/:paymentId\<close>. \<open>refundSuccess\<close> is the outcome of the refund's draw.
  The row is looked up with \<open>payment_id = ? AND status = "completed"\<close>; the update is
  \<open>WHERE payment_id = ?\<close>. The body's \<open>reason\<close> defaults to \<open>Customer request\<close>.
\<close>

definition refundPayment ::
  "bool \<Rightarrow> string \<Rightarrow> timestamp \<Rightarrow> string \<Rightarrow> string option \<Rightarrow> 'p payment list
     \<Rightarrow> (failure + 'p refund_processed) \<times> 'p payment list" where
  "refundPayment refundSuccess uuid now paymentId reason_opt rows =
     (let reason = (case reason_opt of None \<Rightarrow> ''Customer request'' | Some r \<Rightarrow> r) in
      case find (\<lambda>p. payment_id p = paymentId \<and> pay_status p = ''completed'') rows of
        None \<Rightarrow> (Inl (Error 404 ''Payment not found or not eligible for refund''), rows)
      | Some payment \<Rightarrow>
          let refund_id = ''refund_'' @ uuid in
          if refundSuccess
          then (Inr \<lparr>refundId = refund_id, rf_message = ''Refund processed successfully'',
                     rf_amount = amount payment\<rparr>,
                map (\<lambda>p. if payment_id p = paymentId
                          then p\<lparr>pay_status := ''refunded'',
                                 gateway_response := Some (Refunded refund_id reason now),
                                 pay_updated_at := now\<rparr>
                          else p) rows)
          else (Inl (Unsuccessful 400 ''Refund processing failed''), rows))"

text \<open>
  For concrete runs: a table that holds one payment of booking 1 by user 7, made through
  Stripe under the payment id \<open>pay-1\<close> and completed, with its amount as a real number; a
  stand-in for \<open>isFloat({min: 0.01})\<close> that accepts the numbers that are not below 0.01;
  and a request to pay booking 1 of user 7.
\<close>

definition ledger :: "real payment list" where
  "ledger =
     [\<lparr>pay_id = 1, payment_id = ''pay-1'', pay_booking_id = SqlNumber (Finite 1 0),
       pay_user_id = SqlNumber (Finite 7 0), amount = 599.98, currency = ''USD'',
       payment_method = SqlText ''stripe'', pay_status = ''completed'',
       gateway_response = Some (Processed \<lparr>success = True,
         transactionId = Some ''stripe_tx-1'', message = ''Payment processed successfully''\<rparr>),
       transaction_id = Some ''stripe_tx-1'', pay_created_at = 10, pay_updated_at = 11\<rparr>]"

definition at_least_cent :: "scalar \<Rightarrow> bool" where
  "at_least_cent x = (case x of JNumber a \<Rightarrow> \<not> less_than a (decimal 1 2) \<and> a \<noteq> NaN | _ \<Rightarrow> False)"

definition pay_with :: "json option \<Rightarrow> payment_request" where
  "pay_with m = \<lparr>pr_bookingId = Some (Single (JNumber (Finite 1 0))),
                 pr_userId = Some (Single (JNumber (Finite 7 0))),
                 pr_amount = Some (Single (JNumber (decimal 59998 2))),
                 pr_paymentMethod = m, pr_cardDetails = None\<rparr>"


section \<open>User service\<close>

record user =
  u_id :: int
  email :: string
  password :: string
  name :: string
  u_created_at :: timestamp
  u_updated_at :: timestamp

text \<open>The payload of a session token, and what \<open>authenticateToken\<close> finds in a request.\<close>

record claims =
  userId :: int
  tk_email :: string
  tk_name :: string

datatype auth = NoToken | InvalidToken | Verified claims

record register_request =
  reg_email :: string
  reg_password :: string
  reg_name :: string

record profile_update =
  up_name :: "string option"
  up_email :: "string option"

record profile =
  pf_id :: int
  pf_email :: string
  pf_name :: string
  pf_created_at :: timestamp

text \<open>
  \<open>POST /register\<close>. \<open>isEmail\<close>, \<open>normalizeEmail\<close> and \<open>trim\<close> are the library's
  validator and sanitizers and \<open>hash\<close> is \<open>bcrypt.hash\<close>, parameters here. The response
  carries the payload of the signed token.
\<close>

definition register ::
  "(string \<Rightarrow> bool) \<Rightarrow> (string \<Rightarrow> string) \<Rightarrow> (string \<Rightarrow> string) \<Rightarrow> (string \<Rightarrow> string) \<Rightarrow> timestamp
     \<Rightarrow> register_request \<Rightarrow> user list \<Rightarrow> (failure + claims) \<times> user list" where
  "register isEmail normalizeEmail trim hash now req rows =
     (let valid = (isEmail (reg_email req) \<and> 6 \<le> length (reg_password req) \<and>
                   2 \<le> length (trim (reg_name req)));
          email' = normalizeEmail (reg_email req);
          name' = trim (reg_name req)
      in if \<not> valid then (Inl ValidationErrors, rows)
         else
           case find (\<lambda>u. email u = email') rows of
             Some row \<Rightarrow> (Inl (Error 400 ''User already exists''), rows)
           | None \<Rightarrow>
               let new_id = lastID (map u_id rows) in
               (Inr \<lparr>userId = new_id, tk_email = email', tk_name = name'\<rparr>,
                rows @ [\<lparr>u_id = new_id, email = email', password = hash (reg_password req),
                         name = name', u_created_at = now, u_updated_at = now\<rparr>]))"

text \<open>The middleware \<open>authenticateToken\<close> in front of a handler.\<close>

fun authenticateToken :: "auth \<Rightarrow> failure + claims" where
  "authenticateToken NoToken = Inl (Error 401 ''Access token required'')"
| "authenticateToken InvalidToken = Inl (Error 403 ''Invalid or expired token'')"
| "authenticateToken (Verified user) = Inr user"

text \<open>\<open>GET /profile\<close>\<close>

definition getProfile :: "auth \<Rightarrow> user list \<Rightarrow> failure + profile" where
  "getProfile a rows =
     (case authenticateToken a of
        Inl e \<Rightarrow> Inl e
      | Inr tk \<Rightarrow>
          (case find (\<lambda>u. u_id u = userId tk) rows of
             None \<Rightarrow> Inl (Error 404 ''User not found'')
           | Some u \<Rightarrow> Inr \<lparr>pf_id = u_id u, pf_email = email u, pf_name = name u,
                            pf_created_at = u_created_at u\<rparr>))"

text \<open>
  \<open>PUT /profile\<close>. A field enters \<open>updates\<close> when it is truthy: supplied and not the
  empty string. The statement fails when it would give the row the email of another row.
\<close>

fun truthy :: "string option \<Rightarrow> bool" where
  "truthy None = False"
| "truthy (Some v) = (v \<noteq> [])"

fun set_name :: "string option \<Rightarrow> user \<Rightarrow> user" where
  "set_name (Some v) u = (if v \<noteq> [] then u\<lparr>name := v\<rparr> else u)"
| "set_name None u = u"

fun set_email :: "string option \<Rightarrow> user \<Rightarrow> user" where
  "set_email (Some v) u = (if v \<noteq> [] then u\<lparr>email := v\<rparr> else u)"
| "set_email None u = u"

definition email_taken :: "int \<Rightarrow> string option \<Rightarrow> user list \<Rightarrow> bool" where
  "email_taken uid e rows =
     (truthy e \<and> list_ex (\<lambda>u. u_id u = uid) rows \<and>
      list_ex (\<lambda>u. u_id u \<noteq> uid \<and> Some (email u) = e) rows)"

definition updateProfile ::
  "(string \<Rightarrow> bool) \<Rightarrow> (string \<Rightarrow> string) \<Rightarrow> (string \<Rightarrow> string) \<Rightarrow> timestamp \<Rightarrow> auth
     \<Rightarrow> profile_update \<Rightarrow> user list \<Rightarrow> (failure + string) \<times> user list" where
  "updateProfile isEmail normalizeEmail trim now a req rows =
     (case authenticateToken a of
        Inl e \<Rightarrow> (Inl e, rows)
      | Inr tk \<Rightarrow>
          let name' = map_option trim (up_name req);
              valid = ((case name' of None \<Rightarrow> True | Some v \<Rightarrow> 2 \<le> length v) \<and>
                       (case up_email req of None \<Rightarrow> True | Some v \<Rightarrow> isEmail v));
              email' = map_option normalizeEmail (up_email req)
          in if \<not> valid then (Inl ValidationErrors, rows)
             else if \<not> truthy name' \<and> \<not> truthy email'
             then (Inl (Error 400 ''No valid fields to update''), rows)
             else if email_taken (userId tk) email' rows
             then (Inl (Error 500 ''Failed to update profile''), rows)
             else (Inr ''Profile updated successfully'',
                   map (\<lambda>u. if u_id u = userId tk
                             then (set_email email' (set_name name' u))\<lparr>u_updated_at := now\<rparr>
                             else u) rows))"

text \<open>
  For concrete runs: stand-ins for \<open>isEmail\<close> (the address has an \<open>@\<close>),
  \<open>normalizeEmail\<close> (the address is kept), \<open>trim\<close> (spaces are removed at both ends)
  and \<open>bcrypt.hash\<close>; the table after Ann and Bob registered at times 1 and 2; and a
  verified token of an account with id 42, which the table does not hold.
\<close>

definition has_at :: "string \<Rightarrow> bool" where
  "has_at e = (CHR ''@'' \<in> set e)"

definition as_given :: "string \<Rightarrow> string" where
  "as_given e = e"

definition strip :: "string \<Rightarrow> string" where
  "strip v = rev (dropWhile (\<lambda>c. c = CHR '' '') (rev (dropWhile (\<lambda>c. c = CHR '' '') v)))"

definition salted :: "string \<Rightarrow> string" where
  "salted pw = ''$2a$10$'' @ pw"

definition members :: "user list" where
  "members =
     snd (register has_at as_given strip salted 2
            \<lparr>reg_email = ''bob@example.com'', reg_password = ''secret2'', reg_name = ''Bob''\<rparr>
       (snd (register has_at as_given strip salted 1
            \<lparr>reg_email = ''ann@example.com'', reg_password = ''secret1'', reg_name = '' Ann ''\<rparr>
            [])))"

definition stale_token :: auth where
  "stale_token = Verified \<lparr>userId = 42, tk_email = ''zoe@example.com'', tk_name = ''Zoe''\<rparr>"

definition ann_token :: auth where
  "ann_token = Verified \<lparr>userId = 1, tk_email = ''ann@example.com'', tk_name = ''Ann''\<rparr>"

section \<open>JavaScript numbers: evaluation\<close>

text \<open>Equations that evaluate \<open>bitlen\<close> and \<open>normalize\<close> on numerals.\<close>

lemma bitlen_numeral [simp]:
  "bitlen 0 = 0"
  "bitlen (Suc 0) = 1"
  "bitlen 1 = 1"
  "bitlen (numeral Num.One) = 1"
  "bitlen (numeral (Num.Bit0 k)) = 1 + bitlen (numeral k)"
  "bitlen (numeral (Num.Bit1 k)) = 1 + bitlen (numeral k)"
  by (subst bitlen.simps, simp)+

lemma normalize_numeral [simp]:
  "normalize 0 e = Finite 0 0"
  "normalize 1 e = Finite 1 e"
  "normalize (- 1) e = Finite (- 1) e"
  "normalize (numeral Num.One) e = Finite 1 e"
  "normalize (numeral (Num.Bit0 k)) e = normalize (numeral k) (e + 1)"
  "normalize (numeral (Num.Bit1 k)) e = Finite (numeral (Num.Bit1 k)) e"
  "normalize (- numeral Num.One) e = Finite (- 1) e"
  "normalize (- numeral (Num.Bit0 k)) e = normalize (- numeral k) (e + 1)"
  "normalize (- numeral (Num.Bit1 k)) e = Finite (- numeral (Num.Bit1 k)) e"
  by (subst normalize.simps, simp)+

lemmas number_defs = decimal_def number_of_int_def nearest_def round_ratio_def
  round_half_even_def scale_def Let_def


lemma seven_times_299_99:
  "multiply (decimal 29999 2) (number_of_int 7) = Finite 288612181564457 (- 37)"
  by (simp add: number_defs)

lemma literal_2099_93: "decimal 209993 2 = Finite 4617794905031311 (- 41)"
  by (simp add: number_defs)


section \<open>Booking service: facts about the handler\<close>

text \<open>Definitions unfolded when a handler is run on concrete data.\<close>

lemmas run_defs = createBooking_def booking_request_valid_def seeded_def sampleServices_def
  lastID_def decrement_slots_def july_first_def party_of_def three_left_def
  capacity_nonneg_def standard_def optional_def isInt_def integer_of_def bind_number_def
  sqlite_operand_def string_number_def all_digits_def is_digit_def digits_value_def
  digit_value_def number_defs

lemma createBooking_created:
  assumes "createBooking isISO now req s = (Inr r, s')"
  shows "\<exists>service.
           find (\<lambda>v. sqlite_integer (bind (rq_serviceId req)) = Some (svc_id v)) (services s) =
             Some service \<and>
           \<not> less_than (number_of_int (available_slots service))
                (js_number (guests_or_default (rq_guests req))) \<and>
           r = \<lparr>bookingId = lastID (map bk_id (bookings s)),
                totalAmount = multiply (price service)
                  (js_number (guests_or_default (rq_guests req)))\<rparr> \<and>
           totalAmount r \<noteq> NaN \<and>
           services s' = decrement_slots (bind (Some (guests_or_default (rq_guests req))))
             (bind (rq_serviceId req)) (services s) \<and>
           bookings s' = bookings s @
             [\<lparr>bk_id = bookingId r, bk_user_id = bind (rq_userId req),
               bk_service_id = bind (rq_serviceId req),
               bk_booking_date = bind (rq_bookingDate req),
               bk_guests = bind (Some (guests_or_default (rq_guests req))),
               bk_total_amount = SqlNumber (totalAmount r), bk_status = ''pending'',
               bk_payment_status = ''pending'', bk_created_at = now, bk_updated_at = now\<rparr>]"
proof (cases "find (\<lambda>v. sqlite_integer (bind (rq_serviceId req)) = Some (svc_id v)) (services s)")
  case None
  with assms show ?thesis
    by (simp add: createBooking_def Let_def split: if_splits)
next
  case (Some service)
  with assms show ?thesis
    by (auto simp: createBooking_def Let_def bind_number_def split: if_splits)
qed


section \<open>Booking service: capacity\<close>

text \<open>The comparison of two finite numbers is the comparison of the reals they stand for.\<close>

lemma less_than_real:
  "less_than (Finite m e) (Finite n f) \<longleftrightarrow>
     real_of_int m * 2 powr real_of_int e < real_of_int n * 2 powr real_of_int f"
proof -
  define g where "g = min e f"
  have split: "2 powr real_of_int d = 2 ^ nat (d - g) * 2 powr real_of_int g" if "g \<le> d" for d
  proof -
    have "real_of_int d = real (nat (d - g)) + real_of_int g"
      using that by simp
    then have "2 powr real_of_int d = 2 powr real (nat (d - g)) * 2 powr real_of_int g"
      by (simp only: powr_add)
    then show ?thesis
      by (simp add: powr_realpow)
  qed
  have "less_than (Finite m e) (Finite n f) \<longleftrightarrow> m * 2 ^ nat (e - g) < n * 2 ^ nat (f - g)"
    by (simp add: Let_def g_def)
  also have "\<dots> \<longleftrightarrow> real_of_int (m * 2 ^ nat (e - g)) < real_of_int (n * 2 ^ nat (f - g))"
    by (simp only: of_int_less_iff)
  also have "\<dots> \<longleftrightarrow> real_of_int (m * 2 ^ nat (e - g)) * 2 powr real_of_int g <
      real_of_int (n * 2 ^ nat (f - g)) * 2 powr real_of_int g"
    by (simp add: mult_less_cancel_right_pos)
  also have "\<dots> \<longleftrightarrow> real_of_int m * 2 powr real_of_int e < real_of_int n * 2 powr real_of_int f"
    using split[of e] split[of f] by (simp add: g_def mult.assoc)
  finally show ?thesis .
qed

text \<open>\<open>integer_of\<close> reads the real value of a number when that value is an integer.\<close>

lemma integer_of_real:
  assumes "integer_of (Finite m e) = Some k"
  shows "real_of_int m * 2 powr real_of_int e = real_of_int k"
proof (cases "0 \<le> e")
  case True
  then have "real_of_int e = real (nat e)" by simp
  then have "2 powr real_of_int e = 2 ^ nat e"
    by (simp only: powr_realpow zero_less_numeral)
  moreover from True assms have "k = m * 2 ^ nat e"
    by (simp add: integer_of_def)
  then have "real_of_int k = real_of_int m * 2 ^ nat e"
    by simp
  ultimately show ?thesis
    by simp
next
  case False
  with assms have dvd: "m mod 2 ^ nat (- e) = 0" and k: "k = m div 2 ^ nat (- e)"
    by (simp_all add: integer_of_def split: if_splits)
  from dvd k have m: "m = k * 2 ^ nat (- e)"
    by (metis div_mult_mod_eq add.right_neutral)
  from False have "real_of_int e = - real (nat (- e))" by simp
  then have "2 powr real_of_int e = 1 / 2 ^ nat (- e)"
    by (simp only: powr_minus powr_realpow zero_less_numeral) (simp add: field_simps)
  with m show ?thesis by simp
qed

lemma integer_of_Finite: "integer_of x = Some k \<Longrightarrow> \<exists>m e. x = Finite m e"
  by (cases x) (simp_all add: integer_of_def)

text \<open>The integers from 0 to 10 are doubles: the conversion is exact on them.\<close>

lemma number_of_small:
  assumes "0 \<le> n" "n \<le> 10"
  shows "\<exists>m e. number_of_int n = Finite m e \<and> integer_of (Finite m e) = Some n"
proof -
  have "\<forall>k\<in>set [0..10]. \<exists>m e. number_of_int k = Finite m e \<and> integer_of (Finite m e) = Some k"
    by (simp add: upto.simps number_defs integer_of_def)
  with assms show ?thesis
    by simp
qed

text \<open>The capacity test \<open>service.available_slots < guests\<close> on a party size of at most 10 is the
  comparison of the integers.\<close>

lemma capacity_check:
  assumes "0 \<le> slots" "integer_of x = Some k" "k \<le> 10" "slots < k"
  shows "less_than (number_of_int slots) x"
proof -
  from assms number_of_small[of slots] obtain m e where
    n: "number_of_int slots = Finite m e" and i: "integer_of (Finite m e) = Some slots"
    by auto
  from integer_of_Finite[OF assms(2)] obtain a b where x: "x = Finite a b" by blast
  from integer_of_real[OF i] integer_of_real[of a b k] assms(2,4) x
  show ?thesis
    unfolding n x less_than_real by simp
qed

text \<open>The text bound for an array is no integer literal, and SQLite arithmetic reads it as 0.\<close>

lemma object_text: "int_literal ''[object Object]'' = None"
  by (simp add: all_digits_def is_digit_def)

lemma array_operand:
  "sqlite_operand (SqlText ''[object Object]'') = 0"
  "sqlite_operand (bind (Some (Array xs))) = 0"
  by (simp_all add: sqlite_operand_def object_text del: int_literal.simps)

text \<open>A scalar party size that passed \<open>isInt\<close> is read as the same integer by the handler and by the
  \<open>UPDATE\<close> statement.\<close>

lemma scalar_reading:
  assumes "int_string x = Some k" "1 \<le> k" "k \<le> 10"
  shows "integer_of (js_number (Single x)) = Some k"
    and "sqlite_operand (bind (Some (Single x))) = k"
proof -
  show "integer_of (js_number (Single x)) = Some k"
  proof (cases x)
    case (JNumber y)
    with assms(1) show ?thesis
      by (simp split: option.splits if_splits)
  next
    case (JString t)
    with assms(1) have "t \<noteq> []" "int_literal t = Some k"
      by auto
    moreover from number_of_small[of k] assms(2,3)
    have "integer_of (number_of_int k) = Some k"
      by auto
    ultimately show ?thesis
      using JString by (simp add: string_number_def)
  qed (use assms(1) in simp_all)
  show "sqlite_operand (bind (Some (Single x))) = k"
  proof (cases x)
    case (JNumber y)
    with assms(1) have "integer_of y = Some k"
      by (simp split: option.splits if_splits)
    moreover from this have "y \<noteq> NaN"
      by (auto simp: integer_of_def)
    ultimately show ?thesis
      using JNumber by (simp add: sqlite_operand_def bind_number_def)
  next
    case (JString t)
    with assms(1) show ?thesis
      by (simp add: sqlite_operand_def)
  qed (use assms(1) in simp_all)
qed

text \<open>A party size that passed validation is a scalar integer from 1 to 10 (the default 1 when the
  field is missing) or an array.\<close>

lemma valid_guests_cases:
  assumes "optional (standard (isInt 1 (Some 10))) g"
  shows "(\<exists>x k. guests_or_default g = Single x \<and> int_string x = Some k \<and> 1 \<le> k \<and> k \<le> 10) \<or>
         (\<exists>xs. guests_or_default g = Array xs)"
proof (cases g)
  case None
  then show ?thesis
    by (simp add: integer_of_def)
next
  case (Some v)
  show ?thesis
  proof (cases v)
    case (Single x)
    with Some assms show ?thesis
      by (auto simp: optional_def standard_def isInt_def split: option.splits)
  next
    case (Array xs)
    with Some show ?thesis by simp
  qed
qed

text \<open>A created booking had a valid request; a refused request leaves the database as it was.\<close>

lemma createBooking_valid:
  "createBooking isISO now req s = (Inr r, s') \<Longrightarrow> booking_request_valid isISO req"
  by (simp add: createBooking_def split: if_splits)

lemma createBooking_failure:
  "createBooking isISO now req s = (Inl e, s') \<Longrightarrow> s' = s"
  by (auto simp: createBooking_def Let_def split: if_splits option.splits)

text \<open>When the capacity test lets a valid request through, the \<open>UPDATE\<close> statement takes no more
  places than the service has.\<close>

lemma taken_within_capacity:
  assumes "booking_request_valid isISO req" "0 \<le> slots"
    and "\<not> less_than (number_of_int slots) (js_number (guests_or_default (rq_guests req)))"
  shows "sqlite_operand (bind (Some (guests_or_default (rq_guests req)))) \<le> slots"
proof -
  from assms(1) have "optional (standard (isInt 1 (Some 10))) (rq_guests req)"
    by (simp add: booking_request_valid_def)
  from valid_guests_cases[OF this] show ?thesis
  proof (elim disjE exE conjE)
    fix x k
    assume g: "guests_or_default (rq_guests req) = Single x"
      and k: "int_string x = Some k" "1 \<le> k" "k \<le> 10"
    from scalar_reading[OF k] capacity_check[of slots "js_number (Single x)" k] assms(2,3) g k(3)
    show ?thesis
      by (cases "slots < k") simp_all
  next
    fix xs
    assume "guests_or_default (rq_guests req) = Array xs"
    with assms(2) show ?thesis
      by (simp add: array_operand)
  qed
qed

text \<open>\<open>id\<close> is the primary key of \<open>services\<close>: the \<open>UPDATE\<close> statement touches the row that the
  \<open>SELECT\<close> statement returned, and no other.\<close>

lemma find_unique:
  assumes "distinct (map f xs)" "find (\<lambda>v. c = Some (f v)) xs = Some a" "v \<in> set xs"
    "c = Some (f v)"
  shows "v = a"
proof -
  from assms(2) have "a \<in> set xs" "c = Some (f a)"
    by (auto simp: find_Some_iff)
  moreover from assms(1) have "inj_on f (set xs)"
    by (simp add: distinct_map)
  ultimately show ?thesis
    using assms(3,4) by (auto dest: inj_onD)
qed

lemma decrement_ids: "map svc_id (decrement_slots g c rows) = map svc_id rows"
  by (simp add: decrement_slots_def)

lemma decrement_keeps_nonneg:
  assumes "distinct (map svc_id rows)" "list_all (\<lambda>v. 0 \<le> available_slots v) rows"
    "find (\<lambda>v. sqlite_integer c = Some (svc_id v)) rows = Some service"
    "sqlite_operand g \<le> available_slots service"
  shows "list_all (\<lambda>v. 0 \<le> available_slots v) (decrement_slots g c rows)"
proof -
  have "0 \<le> available_slots v - sqlite_operand g"
    if "v \<in> set rows" "sqlite_integer c = Some (svc_id v)" for v
  proof -
    from find_unique[OF assms(1) assms(3) that] have "v = service" .
    with assms(4) show ?thesis by simp
  qed
  with assms(2) show ?thesis
    by (auto simp: decrement_slots_def list_all_iff)
qed

text \<open>No request, with a scalar or an array party size, makes the number of available places of a
  service negative.\<close>

lemma createBooking_invariant:
  assumes "distinct (map svc_id (services s))" "capacity_nonneg s"
  shows "distinct (map svc_id (services (snd (createBooking isISO now req s)))) \<and>
         capacity_nonneg (snd (createBooking isISO now req s))"
proof (cases "fst (createBooking isISO now req s)")
  case (Inl e)
  then have "createBooking isISO now req s = (Inl e, snd (createBooking isISO now req s))"
    by (simp add: prod_eq_iff)
  from createBooking_failure[OF this] assms show ?thesis
    by simp
next
  case (Inr r)
  then have run: "createBooking isISO now req s = (Inr r, snd (createBooking isISO now req s))"
    by (simp add: prod_eq_iff)
  let ?s' = "snd (createBooking isISO now req s)"
  let ?g = "guests_or_default (rq_guests req)"
  from createBooking_created[OF run] obtain service where
    found: "find (\<lambda>v. sqlite_integer (bind (rq_serviceId req)) = Some (svc_id v)) (services s) =
             Some service"
    and room: "\<not> less_than (number_of_int (available_slots service)) (js_number ?g)"
    and rows: "services ?s' = decrement_slots (bind (Some ?g)) (bind (rq_serviceId req)) (services s)"
    by blast
  from found have "service \<in> set (services s)"
    by (auto simp: find_Some_iff)
  with assms(2) have "0 \<le> available_slots service"
    by (simp add: capacity_nonneg_def list_all_iff)
  from taken_within_capacity[OF createBooking_valid[OF run] this room]
  have "sqlite_operand (bind (Some ?g)) \<le> available_slots service" .
  from decrement_keeps_nonneg[OF assms(1) _ found this] assms(2)
  have "list_all (\<lambda>v. 0 \<le> available_slots v) (services ?s')"
    by (simp add: capacity_nonneg_def rows)
  with assms(1) show ?thesis
    by (simp add: capacity_nonneg_def rows decrement_ids)
qed

lemma createBookings_invariant:
  "distinct (map svc_id (services s)) \<Longrightarrow> capacity_nonneg s \<Longrightarrow>
   capacity_nonneg (createBookings isISO reqs s)"
proof (induction reqs arbitrary: s)
  case Nil
  then show ?case by simp
next
  case (Cons a reqs)
  obtain now req where a: "a = (now, req)" by (cases a)
  from createBooking_invariant[OF Cons.prems, of isISO now req] Cons.IH a
  show ?case by simp
qed

text \<open>A scalar party size larger than the number of available places is refused with status 400,
  and nothing is stored.\<close>

lemma over_capacity_rejected:
  assumes "booking_request_valid isISO req"
    and "find (\<lambda>v. sqlite_integer (bind (rq_serviceId req)) = Some (svc_id v)) (services s) =
           Some service"
    and "guests_or_default (rq_guests req) = Single x" "int_string x = Some k"
    and "0 \<le> available_slots service" "available_slots service < k"
  shows "createBooking isISO now req s = (Inl (Error 400 ''Not enough available slots''), s)"
proof -
  from assms(1) have "optional (standard (isInt 1 (Some 10))) (rq_guests req)"
    by (simp add: booking_request_valid_def)
  from valid_guests_cases[OF this] assms(3,4) have k: "1 \<le> k" "k \<le> 10"
    by auto
  from scalar_reading(1)[OF assms(4) k] capacity_check[OF assms(5) _ k(2) assms(6)]
  have "less_than (number_of_int (available_slots service)) (js_number (Single x))"
    by simp
  with assms(1,2,3) show ?thesis
    by (simp add: createBooking_def)
qed

text \<open>A booking created with a scalar party size (or none) takes exactly that many places from the
  booked service and none from the others.\<close>

lemma scalar_guests_taken:
  assumes "createBooking isISO now req s = (Inr r, s')"
    and "guests_or_default (rq_guests req) = Single x"
  shows "\<exists>k. int_string x = Some k \<and> 1 \<le> k \<and> k \<le> 10 \<and>
           map svc_id (services s') = map svc_id (services s) \<and>
           map available_slots (services s') =
             map (\<lambda>v. if sqlite_integer (bind (rq_serviceId req)) = Some (svc_id v)
                       then available_slots v - k else available_slots v) (services s)"
proof -
  from createBooking_valid[OF assms(1)]
  have "optional (standard (isInt 1 (Some 10))) (rq_guests req)"
    by (simp add: booking_request_valid_def)
  from valid_guests_cases[OF this] assms(2) obtain k where
    k: "int_string x = Some k" "1 \<le> k" "k \<le> 10"
    by auto
  from createBooking_created[OF assms(1)] assms(2)
  have "services s' = decrement_slots (bind (Some (Single x))) (bind (rq_serviceId req)) (services s)"
    by auto
  with scalar_reading(2)[OF k] k show ?thesis
    by (auto simp: decrement_slots_def)
qed

text \<open>A scalar party size that is no integer, below 1 or above 10 is refused by validation.\<close>

lemma guests_out_of_range:
  assumes "rq_guests req = Some (Single x)"
    and "int_string x = None \<or> (\<exists>k. int_string x = Some k \<and> (k < 1 \<or> 10 < k))"
  shows "createBooking isISO now req s = (Inl ValidationErrors, s)"
  using assms
  by (auto simp: createBooking_def booking_request_valid_def optional_def standard_def isInt_def)

text \<open>A request without a party size is handled as a request for one guest.\<close>

lemma guests_omitted:
  "createBooking isISO now (req\<lparr>rq_guests := None\<rparr>) s =
   createBooking isISO now (req\<lparr>rq_guests := Some (Single (JNumber (Finite 1 0)))\<rparr>) s"
  by (simp add: createBooking_def booking_request_valid_def optional_def standard_def isInt_def
      integer_of_def Let_def split: option.splits)


section \<open>Booking service: totals\<close>




section \<open>Booking service: array values of the party size\<close>

text \<open>
  C2. The claim is that a successful request takes exactly its party size from the
  remaining capacity of the item. The validators check an array element by element, and
  the handler goes on with the array itself: with \<open>guests: [5]\<close> the request passes
  \<open>isInt({min: 1, max: 10})\<close>, JavaScript reads the array as 5 in the capacity check and
  in the total, the booking is created, and the \<open>UPDATE\<close>, to which the array is bound as
  the text \<open>[object Object]\<close>, subtracts 0: every item of the seeded table still has its
  100 places. The same request with the number 5 leaves 95.
\<close>

theorem array_guests_keep_capacity:
  "booking_request_valid july_first (party_of (Some (Array [JNumber (Finite 5 0)]))) \<and>
   fst (createBooking july_first 5 (party_of (Some (Array [JNumber (Finite 5 0)]))) seeded) =
     Inr \<lparr>bookingId = 1, totalAmount = Finite 6596849864330445 (- 42)\<rparr> \<and>
   map bk_guests (bookings (snd (createBooking july_first 5
       (party_of (Some (Array [JNumber (Finite 5 0)]))) seeded))) =
     [SqlText ''[object Object]''] \<and>
   map available_slots (services seeded) = [100, 100, 100, 100, 100, 100] \<and>
   map available_slots (services (snd (createBooking july_first 5
       (party_of (Some (Array [JNumber (Finite 5 0)]))) seeded))) =
     [100, 100, 100, 100, 100, 100] \<and>
   map available_slots (services (snd (createBooking july_first 5
       (party_of (Some (Single (JNumber (Finite 5 0))))) seeded))) =
     [95, 100, 100, 100, 100, 100]"
  by (simp add: run_defs)

text \<open>
  C10. The claim is that a request whose \<open>guests\<close> is supplied and is not an integer from
  1 to 10 is answered with status 400 and creates no booking. With \<open>guests: []\<close> there is
  no element for \<open>isInt({min: 1, max: 10})\<close> to reject: the request passes validation,
  JavaScript reads the empty array as 0, and the booking is created with the total 0.
\<close>

theorem empty_guests_accepted:
  "booking_request_valid july_first (party_of (Some (Array []))) \<and>
   fst (createBooking july_first 5 (party_of (Some (Array []))) seeded) =
     Inr \<lparr>bookingId = 1, totalAmount = Finite 0 0\<rparr> \<and>
   map bk_id (bookings (snd (createBooking july_first 5 (party_of (Some (Array []))) seeded))) =
     [1] \<and>
   map bk_total_amount
     (bookings (snd (createBooking july_first 5 (party_of (Some (Array []))) seeded))) =
     [SqlNumber (Finite 0 0)] \<and>
   map bk_guests
     (bookings (snd (createBooking july_first 5 (party_of (Some (Array []))) seeded))) =
     [SqlText ''[object Object]'']"
  by (simp add: run_defs)


section \<open>Notification service: marking as read\<close>

lemmas notify_defs = markRead_def inbox_def Let_def

lemma markRead_rows:
  "snd (markRead now ident rows) =
     map (\<lambda>n. if nt_id n = ident then n\<lparr>read_at := Some now\<rparr> else n) rows"
  by (simp add: markRead_def Let_def)

lemma markRead_response:
  "fst (markRead now ident rows) =
     (if filter (\<lambda>n. nt_id n = ident) rows = [] then Inl (Error 404 ''Notification not found'')
      else Inr ''Notification marked as read'')"
  by (simp add: markRead_def Let_def)

lemma filter_after_mark:
  "map nt_id (map (\<lambda>n. if nt_id n = ident then n\<lparr>read_at := Some now\<rparr> else n) rows) =
   map nt_id rows"
  by (induction rows) auto

lemma filter_empty_ids:
  "(filter (\<lambda>n. nt_id n = ident) rows = []) = (ident \<notin> set (map nt_id rows))"
  by (auto simp: filter_empty_conv)

lemma markRead_absorbs:
  "markRead later ident (snd (markRead now ident rows)) = markRead later ident rows"
proof -
  have "snd (markRead later ident (snd (markRead now ident rows))) = snd (markRead later ident rows)"
    by (simp add: markRead_rows o_def) 
  moreover have "fst (markRead later ident (snd (markRead now ident rows))) = fst (markRead later ident rows)"
    by (simp only: markRead_response filter_empty_ids markRead_rows filter_after_mark)
  ultimately show ?thesis by (simp add: prod_eq_iff)
qed

lemma stamped_rows:
  "list_all (\<lambda>n. nt_id n = ident \<longrightarrow> read_at n = Some now)
     (map (\<lambda>n. if nt_id n = ident then n\<lparr>read_at := Some now\<rparr> else n) rows)"
  by (induction rows) simp_all

lemma markRead_stamps:
  "n \<in> set (snd (markRead now ident rows)) \<Longrightarrow> nt_id n = ident \<Longrightarrow> read_at n = Some now"
  using stamped_rows[of ident now rows] unfolding markRead_rows list_all_iff by blast

text \<open>
  C3, as the specification states it, does not hold. In the stored notifications
  \<open>inbox\<close>, marking notification 1 as read at time 10 stores 10 in its \<open>read_at\<close>;
  marking it again at time 20 succeeds and replaces the stored 10 by 20.
\<close>

theorem markRead_twice_counterexample:
  "map read_at (snd (markRead 10 1 inbox)) = [Some 10, None] \<and>
   map read_at (snd (markRead 20 1 (snd (markRead 10 1 inbox)))) = [Some 20, None] \<and>
   fst (markRead 20 1 (snd (markRead 10 1 inbox))) = Inr ''Notification marked as read''"
  by (simp add: notify_defs)

text \<open>
  C3, amended. \<open>PUT /notifications/:id/read\<close> overwrites \<open>read_at\<close> with the time of the
  call, whether the notification was read before or not. A second call on the same id gives
  the response and the table that it would have given without the first call: every
  notification with that id then carries the time of the second call. The stored timestamp
  is the one the first call set only when both calls read the same \<open>CURRENT_TIMESTAMP\<close>.
\<close>

theorem markRead_twice:
  "markRead later ident (snd (markRead now ident rows)) = markRead later ident rows \<and>
   (\<forall>n \<in> set (snd (markRead later ident (snd (markRead now ident rows)))).
      nt_id n = ident \<longrightarrow> read_at n = Some later) \<and>
   snd (markRead now ident (snd (markRead now ident rows))) = snd (markRead now ident rows)"
proof (intro conjI ballI impI)
  show "markRead later ident (snd (markRead now ident rows)) = markRead later ident rows"
    by (rule markRead_absorbs)
  show "snd (markRead now ident (snd (markRead now ident rows))) = snd (markRead now ident rows)"
    by (simp only: markRead_absorbs)
  fix n
  assume "n \<in> set (snd (markRead later ident (snd (markRead now ident rows))))" "nt_id n = ident"
  then show "read_at n = Some later"
    by (rule markRead_stamps)
qed

theorem markRead_twice_witness:
  "markRead 20 1 (snd (markRead 10 1 inbox)) = markRead 20 1 inbox \<and>
   map read_at (snd (markRead 20 1 inbox)) = [Some 20, None] \<and>
   hd (snd (markRead 20 1 (snd (markRead 10 1 inbox)))) \<in>
     set (snd (markRead 20 1 (snd (markRead 10 1 inbox)))) \<and>
   nt_id (hd (snd (markRead 20 1 (snd (markRead 10 1 inbox))))) = 1 \<and>
   read_at (hd (snd (markRead 20 1 (snd (markRead 10 1 inbox))))) = Some 20"
proof -
  let ?twice = "snd (markRead 20 1 (snd (markRead 10 1 inbox)))"
  note inst = markRead_twice[where later = 20 and ident = 1 and now = 10 and rows = inbox]
  have same: "markRead 20 1 (snd (markRead 10 1 inbox)) = markRead 20 1 inbox"
    by (rule inst[THEN conjunct1])
  have once: "map read_at (snd (markRead 20 1 inbox)) = [Some 20, None]"
    by (simp add: notify_defs)
  have first: "hd ?twice \<in> set ?twice" "nt_id (hd ?twice) = 1"
    by (simp_all add: notify_defs)
  have stamped: "read_at (hd ?twice) = Some 20"
    by (rule inst[THEN conjunct2, THEN conjunct1, rule_format, OF first])
  show ?thesis
    by (intro conjI) (fact same once first stamped)+
qed


section \<open>Payment service: facts about the handlers\<close>

lemmas pay_defs = processPayment_def payment_request_valid_def paymentGateways_def
  update_payment_def lastID_def at_least_cent_def pay_with_def standard_def optional_def
  isObject_def isInt_def isIn_def integer_of_def bind_number_def number_defs

lemma ledger_rows:
  "ledger =
     [\<lparr>pay_id = 1, payment_id = ''pay-1'', pay_booking_id = SqlNumber (Finite 1 0),
       pay_user_id = SqlNumber (Finite 7 0), amount = 599.98, currency = ''USD'',
       payment_method = SqlText ''stripe'', pay_status = ''completed'',
       gateway_response = Some (Processed \<lparr>success = True,
         transactionId = Some ''stripe_tx-1'', message = ''Payment processed successfully''\<rparr>),
       transaction_id = Some ''stripe_tx-1'', pay_created_at = 10, pay_updated_at = 11\<rparr>]"
  by (simp add: ledger_def)

lemma refund_not_found:
  "find (\<lambda>p. payment_id p = pid \<and> pay_status p = ''completed'') rows = None \<Longrightarrow>
   refundPayment ok uuid now pid reason rows =
     (Inl (Error 404 ''Payment not found or not eligible for refund''), rows)"
  by (simp add: refundPayment_def)

lemma refund_success_cases:
  assumes "refundPayment ok uuid now pid reason rows = (Inr r, rows')"
  shows "\<exists>payment. find (\<lambda>p. payment_id p = pid \<and> pay_status p = ''completed'') rows = Some payment \<and>
           ok \<and> rf_amount r = amount payment \<and>
           rows' = map (\<lambda>p. if payment_id p = pid
                              then p\<lparr>pay_status := ''refunded'',
                                     gateway_response := Some (Refunded (''refund_'' @ uuid)
                                        (case reason of None \<Rightarrow> ''Customer request'' | Some r \<Rightarrow> r) now),
                                     pay_updated_at := now\<rparr>
                              else p) rows"
proof (cases "find (\<lambda>p. payment_id p = pid \<and> pay_status p = ''completed'') rows")
  case None
  with assms show ?thesis by (simp add: refundPayment_def)
next
  case (Some payment)
  with assms show ?thesis by (cases ok) (auto simp: refundPayment_def Let_def)
qed

lemma refunded_rows:
  "list_all (\<lambda>p. payment_id p = pid \<longrightarrow> pay_status p = ''refunded'')
     (map (\<lambda>p. if payment_id p = pid
                then p\<lparr>pay_status := ''refunded'', gateway_response := g, pay_updated_at := t\<rparr>
                else p) rows)"
  by (induction rows) simp_all

lemma none_completed:
  "list_all (\<lambda>p. payment_id p = pid \<longrightarrow> pay_status p = ''refunded'') rows \<Longrightarrow>
   find (\<lambda>p. payment_id p = pid \<and> pay_status p = ''completed'') rows = None"
  by (induction rows) auto

lemma refund_failed_draw:
  "find (\<lambda>p. payment_id p = pid \<and> pay_status p = ''completed'') rows = Some payment \<Longrightarrow>
   refundPayment False uuid now pid reason rows =
     (Inl (Unsuccessful 400 ''Refund processing failed''), rows)"
  by (simp add: refundPayment_def Let_def)

lemma refund_failed_rows: "snd (refundPayment False uuid now pid reason rows) = rows"
  by (cases "find (\<lambda>p. payment_id p = pid \<and> pay_status p = ''completed'') rows")
     (simp_all add: refundPayment_def Let_def)

lemma method_rejected:
  "pr_paymentMethod req = Some (Single (JString m)) \<Longrightarrow>
   m \<notin> set [''stripe'', ''paypal'', ''square''] \<Longrightarrow>
   processPayment isFloat paymentId now ok uuid later req rows = (Inl ValidationErrors, rows)"
  by (simp add: processPayment_def payment_request_valid_def standard_def isIn_def)


section \<open>Payment service: refunds\<close>

text \<open>
  C4. \<open>POST /refund/:paymentId\<close> answers 404 (\<open>Payment not found or not eligible for
  refund\<close>) and leaves the table as it was whenever no stored payment with that payment id
  has the status \<open>completed\<close>. When it answers with a refund, a stored payment with that id
  had the status \<open>completed\<close>, every payment with that id has the status \<open>refunded\<close>
  afterwards, and a second refund request for the same id, whatever its draw, reason and
  time, is answered with that 404.
\<close>

theorem refund_only_completed:
  "((\<forall>p \<in> set rows. payment_id p = pid \<longrightarrow> pay_status p \<noteq> ''completed'') \<longrightarrow>
      refundPayment ok uuid now pid reason rows =
        (Inl (Error 404 ''Payment not found or not eligible for refund''), rows)) \<and>
   (refundPayment ok uuid now pid reason rows = (Inr r, rows') \<longrightarrow>
      (\<exists>p \<in> set rows. payment_id p = pid \<and> pay_status p = ''completed'') \<and>
      (\<forall>p \<in> set rows'. payment_id p = pid \<longrightarrow> pay_status p = ''refunded'') \<and>
      refundPayment ok' uuid' now' pid reason' rows' =
        (Inl (Error 404 ''Payment not found or not eligible for refund''), rows')) \<and>
   http_status (Error 404 ''Payment not found or not eligible for refund'') = 404"
proof (intro conjI impI)
  assume "\<forall>p \<in> set rows. payment_id p = pid \<longrightarrow> pay_status p \<noteq> ''completed''"
  then have "find (\<lambda>p. payment_id p = pid \<and> pay_status p = ''completed'') rows = None"
    by (simp add: find_None_iff)
  then show "refundPayment ok uuid now pid reason rows =
        (Inl (Error 404 ''Payment not found or not eligible for refund''), rows)"
    by (rule refund_not_found)
next
  assume run: "refundPayment ok uuid now pid reason rows = (Inr r, rows')"
  from refund_success_cases[OF run] obtain payment where
    found: "find (\<lambda>p. payment_id p = pid \<and> pay_status p = ''completed'') rows = Some payment"
    and rows': "rows' = map (\<lambda>p. if payment_id p = pid
                              then p\<lparr>pay_status := ''refunded'',
                                     gateway_response := Some (Refunded (''refund_'' @ uuid)
                                        (case reason of None \<Rightarrow> ''Customer request'' | Some r \<Rightarrow> r) now),
                                     pay_updated_at := now\<rparr>
                              else p) rows"
    by blast
  from found show "\<exists>p \<in> set rows. payment_id p = pid \<and> pay_status p = ''completed''"
    by (auto simp: find_Some_iff)
  have all: "list_all (\<lambda>p. payment_id p = pid \<longrightarrow> pay_status p = ''refunded'') rows'"
    unfolding rows' by (rule refunded_rows)
  then show "\<forall>p \<in> set rows'. payment_id p = pid \<longrightarrow> pay_status p = ''refunded''"
    by (simp add: list_all_iff)
  from none_completed[OF all]
  show "refundPayment ok' uuid' now' pid reason' rows' =
        (Inl (Error 404 ''Payment not found or not eligible for refund''), rows')"
    by (rule refund_not_found)
next
  show "http_status (Error 404 ''Payment not found or not eligible for refund'') = 404"
    by simp
qed

theorem refund_only_completed_witness:
  "refundPayment True ''r-1'' 20 ''pay-9'' None ledger =
     (Inl (Error 404 ''Payment not found or not eligible for refund''), ledger) \<and>
   fst (refundPayment True ''r-1'' 20 ''pay-1'' None ledger) =
     Inr \<lparr>refundId = ''refund_r-1'', rf_message = ''Refund processed successfully'',
          rf_amount = 599.98\<rparr> \<and>
   map pay_status ledger = [''completed''] \<and>
   map pay_status (snd (refundPayment True ''r-1'' 20 ''pay-1'' None ledger)) = [''refunded''] \<and>
   refundPayment True ''r-2'' 30 ''pay-1'' None
       (snd (refundPayment True ''r-1'' 20 ''pay-1'' None ledger)) =
     (Inl (Error 404 ''Payment not found or not eligible for refund''),
      snd (refundPayment True ''r-1'' 20 ''pay-1'' None ledger))"
proof -
  let ?first = "refundPayment True ''r-1'' 20 ''pay-1'' None ledger"
  let ?r = "\<lparr>refundId = ''refund_r-1'', rf_message = ''Refund processed successfully'',
             rf_amount = 599.98 :: real\<rparr>"
  have unknown: "\<forall>p \<in> set ledger. payment_id p = ''pay-9'' \<longrightarrow> pay_status p \<noteq> ''completed''"
    by (simp add: ledger_rows)
  have c1: "refundPayment True ''r-1'' 20 ''pay-9'' None ledger =
     (Inl (Error 404 ''Payment not found or not eligible for refund''), ledger)"
    by (rule refund_only_completed[where rows = ledger and pid = "''pay-9''",
          THEN conjunct1, THEN mp, OF unknown])
  have ok: "fst ?first = Inr ?r"
    by (simp add: ledger_rows refundPayment_def Let_def)
  then have run: "?first = (Inr ?r, snd ?first)"
    by (simp add: prod_eq_iff)
  have before: "map pay_status ledger = [''completed'']"
    by (simp add: ledger_rows)
  have after: "map pay_status (snd ?first) = [''refunded'']"
    by (simp add: ledger_rows refundPayment_def Let_def)
  note second = refund_only_completed[where rows = ledger and pid = "''pay-1''" and ok = True
      and uuid = "''r-1''" and now = 20 and reason = None and r = "?r" and rows' = "snd ?first"
      and ok' = True and uuid' = "''r-2''" and now' = 30 and reason' = None,
      THEN conjunct2, THEN conjunct1, THEN mp, OF run]
  have c2: "refundPayment True ''r-2'' 30 ''pay-1'' None (snd ?first) =
     (Inl (Error 404 ''Payment not found or not eligible for refund''), snd ?first)"
    by (rule second[THEN conjunct2, THEN conjunct2])
  show ?thesis
    by (intro conjI) (fact c1 ok before after c2)+
qed

text \<open>
  C7. When the refund's draw fails, \<open>POST /refund/:paymentId\<close> leaves the table of payments
  exactly as it was, and for a payment that was found with the status \<open>completed\<close> the
  answer is the failure \<open>Refund processing failed\<close> with status 400.
\<close>

theorem failed_refund_changes_nothing:
  "snd (refundPayment False uuid now pid reason rows) = rows \<and>
   (find (\<lambda>p. payment_id p = pid \<and> pay_status p = ''completed'') rows = Some payment \<longrightarrow>
      refundPayment False uuid now pid reason rows =
        (Inl (Unsuccessful 400 ''Refund processing failed''), rows))"
  using refund_failed_rows[of uuid now pid reason rows]
    refund_failed_draw[of pid rows payment uuid now reason]
  by simp

theorem failed_refund_changes_nothing_witness:
  "find (\<lambda>p. payment_id p = ''pay-1'' \<and> pay_status p = ''completed'') ledger = Some (hd ledger) \<and>
   refundPayment False ''r-1'' 20 ''pay-1'' (Some ''Change of plans'') ledger =
     (Inl (Unsuccessful 400 ''Refund processing failed''), ledger) \<and>
   map pay_status ledger = [''completed'']"
proof -
  have found: "find (\<lambda>p. payment_id p = ''pay-1'' \<and> pay_status p = ''completed'') ledger =
      Some (hd ledger)"
    by (simp add: ledger_rows)
  have failed: "refundPayment False ''r-1'' 20 ''pay-1'' (Some ''Change of plans'') ledger =
     (Inl (Unsuccessful 400 ''Refund processing failed''), ledger)"
    by (rule failed_refund_changes_nothing[where rows = ledger and pid = "''pay-1''",
          THEN conjunct2, THEN mp, OF found])
  have status: "map pay_status ledger = [''completed'']"
    by (simp add: ledger_rows)
  show ?thesis
    by (intro conjI) (fact found failed status)+
qed

section \<open>Payment service: payment methods\<close>

text \<open>
  C5. The claim is that a request whose payment method is not one of the supported
  gateways is answered with the validation errors and stores no payment. With
  \<open>paymentMethod: []\<close> there is no element for \<open>isIn(['stripe', 'paypal', 'square'])\<close> to
  reject: the request passes validation, a payment row is inserted, the look-up
  \<open>paymentGateways[paymentMethod]\<close> under the empty string finds no gateway, and the answer
  is 500 \<open>Payment gateway error\<close>, with the row left in the table as a failed payment.
\<close>

theorem empty_method_accepted:
  "payment_request_valid at_least_cent (pay_with (Some (Array []))) \<and>
   gateway_of (Some (Array [])) = None \<and>
   processPayment at_least_cent ''pay-2'' 12 True ''tx-2'' 13 (pay_with (Some (Array []))) [] =
     (Inl (Unsuccessful 500 ''Payment gateway error''),
      [\<lparr>pay_id = 1, payment_id = ''pay-2'', pay_booking_id = SqlNumber (Finite 1 0),
        pay_user_id = SqlNumber (Finite 7 0),
        amount = SqlNumber (Finite 1319369972866089 (- 41)), currency = ''USD'',
        payment_method = SqlText ''[object Object]'', pay_status = ''failed'',
        gateway_response = Some GatewayError, transaction_id = None, pay_created_at = 12,
        pay_updated_at = 12\<rparr>])"
  by (simp add: pay_defs)


section \<open>User service: facts about the handlers\<close>

lemmas user_defs = register_def updateProfile_def getProfile_def email_taken_def lastID_def
  Let_def has_at_def as_given_def strip_def salted_def members_def stale_token_def ann_token_def

lemma members_rows:
  "members =
     [\<lparr>u_id = 1, email = ''ann@example.com'', password = ''$2a$10$secret1'', name = ''Ann'',
       u_created_at = 1, u_updated_at = 1\<rparr>,
      \<lparr>u_id = 2, email = ''bob@example.com'', password = ''$2a$10$secret2'', name = ''Bob'',
       u_created_at = 2, u_updated_at = 2\<rparr>]"
  by (simp add: user_defs)



lemma set_name_frame:
  "u_id (set_name v u) = u_id u" "password (set_name v u) = password u"
  "email (set_name v u) = email u" "u_created_at (set_name v u) = u_created_at u"
  "u_updated_at (set_name v u) = u_updated_at u" "set_name None u = u"
  by (cases v; simp)+

lemma set_email_frame:
  "u_id (set_email v u) = u_id u" "password (set_email v u) = password u"
  "name (set_email v u) = name u" "u_created_at (set_email v u) = u_created_at u"
  "u_updated_at (set_email v u) = u_updated_at u" "set_email None u = u"
  by (cases v; simp)+

lemma list_all2_map_self:
  assumes "\<And>x. P x (f x)"
  shows "list_all2 P xs (map f xs)"
  by (induction xs) (simp_all add: assms)

lemma list_all2_map_eq:
  assumes "list_all2 P xs ys" "\<And>x y. P x y \<Longrightarrow> f y = f x"
  shows "map f ys = map f xs"
  using assms(1) by (induction rule: list_all2_induct) (simp_all add: assms(2))

lemma updateProfile_cases:
  "(\<exists>e. updateProfile isEmail normalizeEmail trim now a req rows = (Inl e, rows)) \<or>
   (\<exists>tk. a = Verified tk \<and>
      (case up_name req of None \<Rightarrow> True | Some v \<Rightarrow> 2 \<le> length (trim v)) \<and>
      updateProfile isEmail normalizeEmail trim now a req rows =
        (Inr ''Profile updated successfully'',
         map (\<lambda>u. if u_id u = userId tk
                   then (set_email (map_option normalizeEmail (up_email req))
                           (set_name (map_option trim (up_name req)) u))\<lparr>u_updated_at := now\<rparr>
                   else u) rows))"
proof (cases a)
  case NoToken
  then show ?thesis by (simp add: updateProfile_def)
next
  case InvalidToken
  then show ?thesis by (simp add: updateProfile_def)
next
  case (Verified tk)
  then show ?thesis
    by (cases "up_name req") (simp_all add: updateProfile_def Let_def)
qed

lemma updateProfile_no_row:
  assumes "find (\<lambda>u. u_id u = userId tk) rows = None"
    and "up_name req = Some v" "2 \<le> length (trim v)" "up_email req = None"
  shows "updateProfile isEmail normalizeEmail trim now (Verified tk) req rows =
           (Inr ''Profile updated successfully'', rows)"
proof -
  from assms(1) have none: "\<forall>u \<in> set rows. u_id u \<noteq> userId tk"
    by (simp add: find_None_iff)
  then have "\<not> list_ex (\<lambda>u. u_id u = userId tk) rows"
    by (simp add: list_ex_iff)
  moreover from assms(3) have "trim v \<noteq> []" by auto
  moreover from none have "map (\<lambda>u. if u_id u = userId tk
                   then (set_email None (set_name (Some (trim v)) u))\<lparr>u_updated_at := now\<rparr>
                   else u) rows = rows"
    by (induction rows) simp_all
  ultimately show ?thesis
    using assms(2-4) by (simp add: updateProfile_def Let_def email_taken_def)
qed


section \<open>User service: registration\<close>




section \<open>User service: profile\<close>

text \<open>
  C6. The claim is that \<open>PUT /profile\<close> with a verified token whose account id is not
  stored fails with 404, as \<open>GET /profile\<close> does. The handler never looks at
  \<open>this.changes\<close>: for the table \<open>members\<close>, which holds no account 42, and a verified
  token of account 42, \<open>GET /profile\<close> answers 404 \<open>User not found\<close>, while
  \<open>PUT /profile\<close> with a new name answers \<open>Profile updated successfully\<close> and leaves
  the table as it was.
\<close>

theorem updateProfile_unknown_account:
  "find (\<lambda>u. u_id u = 42) members = None \<and>
   getProfile stale_token members = Inl (Error 404 ''User not found'') \<and>
   updateProfile has_at as_given strip 50 stale_token
       \<lparr>up_name = Some ''Zoey'', up_email = None\<rparr> members =
     (Inr ''Profile updated successfully'', members)"
  by (simp add: members_rows stale_token_def getProfile_def updateProfile_def email_taken_def
      Let_def strip_def)

text \<open>
  C9, as the specification states it, does not hold. Ann's token and a request that
  supplies only a name: the update succeeds, the name is stored, and the column
  \<open>updated_at\<close> of her account, which the request did not supply, changes from 1 to the
  time of the request, 50.
\<close>

theorem updateProfile_touches_updated_at:
  "fst (updateProfile has_at as_given strip 50 ann_token
          \<lparr>up_name = Some ''Anna'', up_email = None\<rparr> members) =
     Inr ''Profile updated successfully'' \<and>
   map u_updated_at members = [1, 2] \<and>
   map u_updated_at (snd (updateProfile has_at as_given strip 50 ann_token
          \<lparr>up_name = Some ''Anna'', up_email = None\<rparr> members)) = [50, 2] \<and>
   map name (snd (updateProfile has_at as_given strip 50 ann_token
          \<lparr>up_name = Some ''Anna'', up_email = None\<rparr> members)) = [''Anna'', ''Bob'']"
  by (simp add: members_rows ann_token_def updateProfile_def email_taken_def Let_def strip_def)

text \<open>
  C9, amended. Whatever \<open>PUT /profile\<close> answers, every stored account keeps its \<open>id\<close>,
  \<open>password\<close> and \<open>created_at\<close>, keeps its \<open>name\<close> when the request supplies no name
  and keeps its \<open>email\<close> when the request supplies no email. A request that fails changes
  no account, and no request changes an account other than the token's. A request that
  succeeds sets the \<open>updated_at\<close> of the token's account to the time of the request,
  although the request does not supply it, and stores a supplied name trimmed.
\<close>

theorem updateProfile_frame:
  "updateProfile isEmail normalizeEmail trim now a req rows = (res, rows') \<longrightarrow>
     list_all2 (\<lambda>u u'.
        u_id u' = u_id u \<and> password u' = password u \<and> u_created_at u' = u_created_at u \<and>
        (up_name req = None \<longrightarrow> name u' = name u) \<and>
        (up_email req = None \<longrightarrow> email u' = email u) \<and>
        (isl res \<longrightarrow> u' = u) \<and>
        (\<forall>tk. a = Verified tk \<and> u_id u \<noteq> userId tk \<longrightarrow> u' = u) \<and>
        (\<forall>tk. a = Verified tk \<and> u_id u = userId tk \<and> \<not> isl res \<longrightarrow>
           u_updated_at u' = now \<and> (\<forall>v. up_name req = Some v \<longrightarrow> name u' = trim v)))
       rows rows'"
proof
  assume run: "updateProfile isEmail normalizeEmail trim now a req rows = (res, rows')"
  let ?P = "\<lambda>u u'.
        u_id u' = u_id u \<and> password u' = password u \<and> u_created_at u' = u_created_at u \<and>
        (up_name req = None \<longrightarrow> name u' = name u) \<and>
        (up_email req = None \<longrightarrow> email u' = email u) \<and>
        (isl res \<longrightarrow> u' = u) \<and>
        (\<forall>tk. a = Verified tk \<and> u_id u \<noteq> userId tk \<longrightarrow> u' = u) \<and>
        (\<forall>tk. a = Verified tk \<and> u_id u = userId tk \<and> \<not> isl res \<longrightarrow>
           u_updated_at u' = now \<and> (\<forall>v. up_name req = Some v \<longrightarrow> name u' = trim v))"
  from updateProfile_cases[of isEmail normalizeEmail trim now a req rows]
  show "list_all2 ?P rows rows'"
  proof (elim disjE exE conjE)
    fix e
    assume "updateProfile isEmail normalizeEmail trim now a req rows = (Inl e, rows)"
    with run have "res = Inl e" "rows' = rows" by simp_all
    then show ?thesis by (simp add: list_all2_same)
  next
    fix tk' :: claims
    let ?f = "\<lambda>u. if u_id u = userId tk'
                   then (set_email (map_option normalizeEmail (up_email req))
                           (set_name (map_option trim (up_name req)) u))\<lparr>u_updated_at := now\<rparr>
                   else u"
    assume a: "a = Verified tk'"
      and valid: "case up_name req of None \<Rightarrow> True | Some v \<Rightarrow> 2 \<le> length (trim v)"
      and "updateProfile isEmail normalizeEmail trim now a req rows =
        (Inr ''Profile updated successfully'', map ?f rows)"
    with run have res: "res = Inr ''Profile updated successfully''" and rows': "rows' = map ?f rows"
      by simp_all
    have step: "?P u (?f u)" for u
    proof (cases "u_id u = userId tk'")
      case False
      then show ?thesis using a res by simp
    next
      case True
      have "name (?f u) = trim v" if "up_name req = Some v" for v
      proof -
        from valid that have "trim v \<noteq> []" by auto
        with True that show ?thesis by (simp add: set_email_frame)
      qed
      with True a res show ?thesis
        by (simp add: set_email_frame set_name_frame)
    qed
    have "list_all2 ?P rows (map ?f rows)"
      by (rule list_all2_map_self) (rule step)
    then show ?thesis
      by (simp only: rows')
  qed
qed

theorem updateProfile_frame_witness:
  "updateProfile has_at as_given strip 50 ann_token
       \<lparr>up_name = Some '' Anna'', up_email = None\<rparr> members =
     (Inr ''Profile updated successfully'',
      snd (updateProfile has_at as_given strip 50 ann_token
             \<lparr>up_name = Some '' Anna'', up_email = None\<rparr> members)) \<and>
   map email (snd (updateProfile has_at as_given strip 50 ann_token
             \<lparr>up_name = Some '' Anna'', up_email = None\<rparr> members)) = map email members \<and>
   map password (snd (updateProfile has_at as_given strip 50 ann_token
             \<lparr>up_name = Some '' Anna'', up_email = None\<rparr> members)) = map password members \<and>
   map u_created_at (snd (updateProfile has_at as_given strip 50 ann_token
             \<lparr>up_name = Some '' Anna'', up_email = None\<rparr> members)) = map u_created_at members \<and>
   map name (snd (updateProfile has_at as_given strip 50 ann_token
             \<lparr>up_name = Some '' Anna'', up_email = None\<rparr> members)) = [''Anna'', ''Bob''] \<and>
   map u_updated_at (snd (updateProfile has_at as_given strip 50 ann_token
             \<lparr>up_name = Some '' Anna'', up_email = None\<rparr> members)) = [50, 2]"
proof -
  let ?req = "\<lparr>up_name = Some '' Anna'', up_email = None\<rparr>"
  let ?out = "updateProfile has_at as_given strip 50 ann_token ?req members"
  have "fst ?out = Inr ''Profile updated successfully''"
    by (simp add: members_rows ann_token_def updateProfile_def email_taken_def Let_def strip_def)
  then have run: "?out = (Inr ''Profile updated successfully'', snd ?out)"
    by (simp add: prod_eq_iff)
  note frame = updateProfile_frame[where isEmail = has_at and normalizeEmail = as_given
      and trim = strip and now = 50 and a = ann_token and req = "?req" and rows = members
      and res = "Inr ''Profile updated successfully''" and rows' = "snd ?out", THEN mp, OF run]
  have emails: "map email (snd ?out) = map email members"
    by (rule list_all2_map_eq[OF frame]) simp
  have passwords: "map password (snd ?out) = map password members"
    by (rule list_all2_map_eq[OF frame]) simp
  have created: "map u_created_at (snd ?out) = map u_created_at members"
    by (rule list_all2_map_eq[OF frame]) simp
  have names: "map name (snd ?out) = [''Anna'', ''Bob'']"
    by (simp add: members_rows ann_token_def updateProfile_def email_taken_def Let_def strip_def)
  have updated: "map u_updated_at (snd ?out) = [50, 2]"
    by (simp add: members_rows ann_token_def updateProfile_def email_taken_def Let_def strip_def)
  show ?thesis
    by (intro conjI) (fact run emails passwords created names updated)+
qed

end
